theory Spec2Isabelle
  imports Main "HOL-Library.AList"
begin

section \<open>Designs: setup functions with effects and failures\<close>

text \<open>
  A thrown JavaScript exception is a value of type \<open>error\<close>: \<open>Error msg\<close> is
  \<^verbatim>\<open>new Error( msg )\<close>, \<open>TypeError\<close> is what the language itself raises (calling
  a value that is not a function, assigning a read-only property in strict mode, reading a
  property of \<^verbatim>\<open>undefined\<close>). A computation of the program is a function from the
  state of the world before it to either the exception it throws or its result and the
  state after it.
\<close>

datatype error = Error string | TypeError

type_synonym key = string

text \<open>
  A dependency value is an object read as a bag of keys and values, or \<^verbatim>\<open>undefined\<close>
  (\<open>None\<close>) when \<^verbatim>\<open>create()\<close> is called without an argument.
\<close>

type_synonym 'v deps = "(key \<rightharpoonup> 'v) option"

type_synonym ('a, 'i, 'w) setupfn = "'a \<Rightarrow> 'w \<Rightarrow> error + 'i \<times> 'w"

text \<open>
  \<^verbatim>\<open>ComponentDesign\<close> (component.ts): the three members \<^verbatim>\<open>create\<close>,
  \<^verbatim>\<open>with\<close> and \<^verbatim>\<open>extend\<close> of every design the library builds are derived from one
  setup function, so a design is that function.
\<close>

datatype ('v, 'i, 'w) componentDesign = ComponentDesign (setupFn: "('v deps, 'i, 'w) setupfn")

text \<open>
  \<^verbatim>\<open>makeCreate\<close>: \<^verbatim>\<open>( ...args ) => setup( args.length > 0 ? args[ 0 ] : undefined )\<close>.
\<close>

definition makeCreate :: "('v deps, 'i, 'w) setupfn \<Rightarrow> 'v deps list \<Rightarrow> 'w \<Rightarrow> error + 'i \<times> 'w" where
  "makeCreate setup args = setup (if length args > 0 then hd args else None)"

definition create :: "('v, 'i, 'w) componentDesign \<Rightarrow> 'v deps \<Rightarrow> 'w \<Rightarrow> error + 'i \<times> 'w" where
  "create D ds = makeCreate (setupFn D) [ds]"

text \<open>Object spread \<^verbatim>\<open>{ ...values, ...deps }\<close>: the keys of \<open>deps\<close> are written last.\<close>

definition spread :: "(key \<rightharpoonup> 'v) \<Rightarrow> 'v deps \<Rightarrow> (key \<rightharpoonup> 'v)" where
  "spread values ds = (case ds of None \<Rightarrow> values | Some m \<Rightarrow> values ++ m)"

text \<open>
  \<^verbatim>\<open>makeWithTransform\<close> and \<^verbatim>\<open>makeExtendTransform\<close> call \<^verbatim>\<open>design( setup )\<close>
  with a function, the branch of \<^verbatim>\<open>design\<close> that wraps the function and cannot throw.
\<close>

definition makeWithTransform ::
  "('v deps, 'i, 'w) setupfn \<Rightarrow> (key \<rightharpoonup> 'v) \<Rightarrow> ('v, 'i, 'w) componentDesign" where
  "makeWithTransform setup values = ComponentDesign (\<lambda>ds. setup (Some (spread values ds)))"

definition makeExtendTransform :: "('v deps, 'i, 'w) setupfn \<Rightarrow> ('v, 'i, 'w) componentDesign" where
  "makeExtendTransform setup = ComponentDesign (\<lambda>ds. setup ds)"

definition design_with :: "('v, 'i, 'w) componentDesign \<Rightarrow> (key \<rightharpoonup> 'v) \<Rightarrow> ('v, 'i, 'w) componentDesign" where
  "design_with D = makeWithTransform (setupFn D)"

definition design_extend :: "('v, 'i, 'w) componentDesign \<Rightarrow> ('v, 'i, 'w) componentDesign" where
  "design_extend D = makeExtendTransform (setupFn D)"

subsection \<open>The \<^verbatim>\<open>design\<close> combinator\<close>

text \<open>
  An argument of \<^verbatim>\<open>design\<close> as the run-time tests of the code see it: a function
  (\<^verbatim>\<open>typeof === 'function'\<close>), an object with a function-valued \<^verbatim>\<open>create\<close> member
  (the only values \<^verbatim>\<open>isComponentDesign\<close> accepts), or anything else: a missing argument,
  \<^verbatim>\<open>null\<close>, a primitive, an object without \<^verbatim>\<open>create\<close>, an object whose
  \<^verbatim>\<open>create\<close> is not a function.
\<close>

datatype other = Missing | Null | Primitive | ObjectWithoutCreate | ObjectCreateNotFunction

datatype ('a, 'v, 'i, 'w) arg =
    Function "('a, 'i, 'w) setupfn"
  | DesignObject "('v, 'i, 'w) componentDesign"
  | Other other

fun isComponentDesign :: "('a, 'v, 'i, 'w) arg \<Rightarrow> bool" where
  "isComponentDesign (DesignObject D) = True"
| "isComponentDesign (Function f) = False"
| "isComponentDesign (Other x) = False"

text \<open>
  What calling the first argument as a setup function does when \<^verbatim>\<open>design\<close> has taken
  it for one (it is not a design): a function runs, any other value is not callable.
\<close>

fun asSetup :: "('a, 'v, 'i, 'w) arg \<Rightarrow> ('a, 'i, 'w) setupfn" where
  "asSetup (Function f) = f"
| "asSetup (DesignObject D) = (\<lambda>a w. Inl TypeError)"
| "asSetup (Other x) = (\<lambda>a w. Inl TypeError)"

text \<open>
  \<^verbatim>\<open>design( setupOrParent, child )\<close> (design.ts). The only \<^verbatim>\<open>throw\<close> of the function
  is the last branch; it runs while the design is built. In the branch of a child that is
  a design, the setup of the result is \<^verbatim>\<open>( deps ) => childDesign.create( deps )\<close>.
\<close>

fun design ::
  "('v deps, 'v, 'i, 'w) arg \<Rightarrow> ('i, 'v, 'i, 'w) arg \<Rightarrow> error + ('v, 'i, 'w) componentDesign" where
  "design (DesignObject parentDesign) (Function child) =
     Inr (ComponentDesign (\<lambda>ds w.
       case create parentDesign ds w of
         Inl e \<Rightarrow> Inl e
       | Inr (parent, w') \<Rightarrow> child parent w'))"
| "design (DesignObject parentDesign) (DesignObject childDesign) =
     Inr (ComponentDesign (\<lambda>ds. create childDesign ds))"
| "design (DesignObject parentDesign) (Other x) =
     Inl (Error ''Invalid child argument to design()'')"
| "design setupOrParent child = Inr (ComponentDesign (asSetup setupOrParent))"


section \<open>Instances: objects, property descriptors, prototype chains\<close>

text \<open>
  A property value is \<^verbatim>\<open>undefined\<close>, a primitive, a function, a bound function or
  another object. Functions are named by values of a type \<open>'f\<close>; \<open>Bound f i\<close> is
  \<^verbatim>\<open>f.bind( inst )\<close> for the instance at position \<open>i\<close> of the composed list. Binding
  a bound function again leaves its receiver as it is. Objects that are not functions
  are named by numbers.
\<close>

datatype 'f val = Undefined | Num int | Str string | Fun 'f | Bound 'f nat | ObjectRef nat

fun isFunction :: "'f val \<Rightarrow> bool" where
  "isFunction (Fun f) = True"
| "isFunction (Bound f i) = True"
| "isFunction v = False"

fun bind :: "'f val \<Rightarrow> nat \<Rightarrow> 'f val" where
  "bind (Fun f) i = Bound f i"
| "bind v i = v"

text \<open>Functions and the other objects are objects; \<^verbatim>\<open>undefined\<close> and primitives are not.\<close>

fun isObject :: "'f val \<Rightarrow> bool" where
  "isObject (Fun f) = True"
| "isObject (Bound f i) = True"
| "isObject (ObjectRef n) = True"
| "isObject v = False"

text \<open>
  A property descriptor is a data descriptor (\<^verbatim>\<open>value\<close>, \<^verbatim>\<open>writable\<close>) or an
  accessor descriptor (\<^verbatim>\<open>get\<close>, \<^verbatim>\<open>set\<close>, each a function or \<^verbatim>\<open>undefined\<close>).
  The four functions below read a field as JavaScript does: a field the descriptor does
  not have is \<^verbatim>\<open>undefined\<close>, which is falsy.
\<close>

datatype 'f desc = Data "'f val" bool | Accessor "'f option" "'f option"

fun descGet :: "'f desc \<Rightarrow> 'f option" where
  "descGet (Accessor g s) = g"
| "descGet (Data v b) = None"

fun descSet :: "'f desc \<Rightarrow> 'f option" where
  "descSet (Accessor g s) = s"
| "descSet (Data v b) = None"

fun descValue :: "'f desc \<Rightarrow> 'f val" where
  "descValue (Data v b) = v"
| "descValue (Accessor g s) = Undefined"

fun descWritable :: "'f desc \<Rightarrow> bool" where
  "descWritable (Data v b) = b"
| "descWritable (Accessor g s) = False"

type_synonym 'f props = "(key \<times> 'f desc) list"

text \<open>
  An instance: its own properties in the order of \<^verbatim>\<open>Reflect.ownKeys\<close>, the objects
  of its prototype chain from the nearest one up to, and without, \<^verbatim>\<open>Object.prototype\<close>
  (the objects the loop of \<^verbatim>\<open>createListComposedInstance\<close> visits), and whether it is
  extensible. Property names are strings. Of the properties of \<^verbatim>\<open>Object.prototype\<close>
  itself, the model has its accessor \<^verbatim>\<open>__proto__\<close>, which a read or an assignment
  reaches when neither the instance nor its chain has a property of that name; its
  methods are not part of the model.
\<close>

record 'f obj =
  ownProps :: "'f props"
  protoChain :: "'f props list"
  extensible :: bool

text \<open>
  The live state a composed instance works on: the current contents of the instances of
  its list, and the state \<open>'x\<close> outside them that their functions close over.
\<close>

record ('f, 'x) store =
  instances :: "'f obj list"
  ext :: 'x

text \<open>
  What the functions of a program do. A function \<open>f\<close> called on the instance at position
  \<open>i\<close> with arguments \<open>args\<close> is \<open>invoke call f i args\<close>: it may throw, or returns a
  value and the state it leaves. The accessor \<^verbatim>\<open>__proto__\<close> of
  \<^verbatim>\<open>Object.prototype\<close> works on prototype objects as such, which the model names but
  does not describe: \<open>protoGetter call i\<close> is the prototype of the instance at position
  \<open>i\<close>, and \<open>protoSetter call i v\<close> is what the setter does on that instance with an
  object \<open>v\<close>: it makes \<open>v\<close> the prototype of the instance, or throws.
\<close>

record ('f, 'x) calls =
  invoke :: "'f \<Rightarrow> nat \<Rightarrow> 'f val list \<Rightarrow> ('f, 'x) store \<Rightarrow> error + 'f val \<times> ('f, 'x) store"
  protoGetter :: "nat \<Rightarrow> ('f, 'x) store \<Rightarrow> 'f val"
  protoSetter :: "nat \<Rightarrow> 'f val \<Rightarrow> ('f, 'x) store \<Rightarrow> error + ('f, 'x) store"

fun findProto :: "'f props list \<Rightarrow> key \<Rightarrow> 'f desc option" where
  "findProto [] k = None"
| "findProto (p # ps) k = (case map_of p k of Some d \<Rightarrow> Some d | None \<Rightarrow> findProto ps k)"

text \<open>The property an object has under a name, and whether it is an own property.\<close>

definition lookupProp :: "'f obj \<Rightarrow> key \<Rightarrow> ('f desc \<times> bool) option" where
  "lookupProp inst k =
     (case map_of (ownProps inst) k of
        Some d \<Rightarrow> Some (d, True)
      | None \<Rightarrow> map_option (\<lambda>d. (d, False)) (findProto (protoChain inst) k))"

text \<open>
  The expression \<^verbatim>\<open>inst[ prop ]\<close> for \<^verbatim>\<open>inst = instances[ i ]\<close>: reading a property
  of \<^verbatim>\<open>undefined\<close> throws, an accessor runs its getter on the instance, and the name
  \<^verbatim>\<open>__proto__\<close>, when the instance and its chain do not have it, reads the prototype
  of the instance.
\<close>

definition js_get :: "('f, 'x) calls \<Rightarrow> nat \<Rightarrow> key \<Rightarrow> ('f, 'x) store \<Rightarrow> error + 'f val \<times> ('f, 'x) store" where
  "js_get call i k s =
     (if i < length (instances s) then
        (case lookupProp (instances s ! i) k of
           None \<Rightarrow>
             (if k = ''__proto__'' then Inr (protoGetter call i s, s) else Inr (Undefined, s))
         | Some (Data v b, own) \<Rightarrow> Inr (v, s)
         | Some (Accessor None st, own) \<Rightarrow> Inr (Undefined, s)
         | Some (Accessor (Some g) st, own) \<Rightarrow> invoke call g i [] s)
      else Inl TypeError)"

definition defineOwn :: "key \<Rightarrow> 'f val \<Rightarrow> 'f obj \<Rightarrow> 'f obj" where
  "defineOwn k v inst = inst\<lparr>ownProps := AList.update k (Data v True) (ownProps inst)\<rparr>"

text \<open>
  The statement \<^verbatim>\<open>inst[ prop ] = value\<close> for \<^verbatim>\<open>inst = instances[ i ]\<close> in strict
  mode (the code is an ES module): a setter found on the instance or its chain runs on the
  instance; a writable own data property is overwritten; a name the instance does not have,
  or inherits as a writable data property, becomes a new own property if the instance is
  extensible; every other case throws. The name \<^verbatim>\<open>__proto__\<close>, when the instance and
  its chain do not have it, reaches the setter of \<^verbatim>\<open>Object.prototype\<close>: the setter
  ignores a value that is not an object, and no own property is created.
\<close>

definition js_put :: "('f, 'x) calls \<Rightarrow> nat \<Rightarrow> key \<Rightarrow> 'f val \<Rightarrow> ('f, 'x) store \<Rightarrow> error + ('f, 'x) store" where
  "js_put call i k v s =
     (if i < length (instances s) then
        (let inst = instances s ! i in
         case lookupProp inst k of
           Some (Accessor g (Some st), own) \<Rightarrow>
             (case invoke call st i [v] s of Inl e \<Rightarrow> Inl e | Inr (r, s') \<Rightarrow> Inr s')
         | Some (Accessor g None, own) \<Rightarrow> Inl TypeError
         | Some (Data old False, own) \<Rightarrow> Inl TypeError
         | Some (Data old True, True) \<Rightarrow>
             Inr (s\<lparr>instances := (instances s)[i := defineOwn k v inst]\<rparr>)
         | Some (Data old True, False) \<Rightarrow>
             (if extensible inst
              then Inr (s\<lparr>instances := (instances s)[i := defineOwn k v inst]\<rparr>)
              else Inl TypeError)
         | None \<Rightarrow>
             (if k = ''__proto__'' then
                (if isObject v then protoSetter call i v s else Inr s)
              else if extensible inst
              then Inr (s\<lparr>instances := (instances s)[i := defineOwn k v inst]\<rparr>)
              else Inl TypeError))
      else Inl TypeError)"

section \<open>The composition plan of a list\<close>

text \<open>
  An entry of \<^verbatim>\<open>propertyMap\<close>: \<^verbatim>\<open>{ index, desc, proto }\<close>. The map is a JavaScript
  \<^verbatim>\<open>Map\<close>: \<^verbatim>\<open>set\<close> on a key it has replaces the value in place, \<^verbatim>\<open>set\<close> on a new
  key appends, which is \<open>AList.update\<close> on the list of its entries.
\<close>

record 'f entry =
  index :: nat
  desc :: "'f desc"
  proto :: "'f props option"

type_synonym 'f plan = "(key \<times> 'f entry) list"

text \<open>Lines 116 to 122: the own keys of the instance, each written unconditionally.\<close>

fun addOwnKeys :: "nat \<Rightarrow> 'f obj \<Rightarrow> key list \<Rightarrow> 'f plan \<Rightarrow> 'f plan" where
  "addOwnKeys i inst [] pm = pm"
| "addOwnKeys i inst (k # ks) pm =
     addOwnKeys i inst ks
       (case map_of (ownProps inst) k of
          None \<Rightarrow> pm
        | Some d \<Rightarrow> AList.update k \<lparr>index = i, desc = d, proto = None\<rparr> pm)"

text \<open>Lines 125 to 132: the keys of one prototype, each written only if the map lacks it.\<close>

fun addProtoKeys :: "nat \<Rightarrow> 'f props \<Rightarrow> key list \<Rightarrow> 'f plan \<Rightarrow> 'f plan" where
  "addProtoKeys i p [] pm = pm"
| "addProtoKeys i p (k # ks) pm =
     addProtoKeys i p ks
       (if map_of pm k = None then
          (case map_of p k of
             None \<Rightarrow> pm
           | Some d \<Rightarrow> AList.update k \<lparr>index = i, desc = d, proto = Some p\<rparr> pm)
        else pm)"

text \<open>Lines 123 to 134: the walk up the prototype chain.\<close>

fun walkProtos :: "nat \<Rightarrow> 'f props list \<Rightarrow> 'f plan \<Rightarrow> 'f plan" where
  "walkProtos i [] pm = pm"
| "walkProtos i (p # ps) pm = walkProtos i ps (addProtoKeys i p (map fst p) pm)"

text \<open>Lines 114 to 135: the loop over the instances, from index \<open>i\<close> on.\<close>

fun buildFrom :: "nat \<Rightarrow> 'f obj list \<Rightarrow> 'f plan \<Rightarrow> 'f plan" where
  "buildFrom i [] pm = pm"
| "buildFrom i (inst # rest) pm =
     buildFrom (Suc i) rest
       (walkProtos i (protoChain inst) (addOwnKeys i inst (map fst (ownProps inst)) pm))"

definition buildPropertyMap :: "'f obj list \<Rightarrow> 'f plan" where
  "buildPropertyMap insts = buildFrom 0 insts []"


section \<open>The facade of a list composition\<close>

text \<open>
  The traps of the \<^verbatim>\<open>Proxy\<close> that \<^verbatim>\<open>createListComposedInstance\<close> returns, as
  functions of the plan the proxy closes over and of the live state of its instances.
\<close>

text \<open>The \<^verbatim>\<open>get\<close> trap, lines 139 to 154.\<close>

definition facade_get ::
  "('f, 'x) calls \<Rightarrow> 'f plan \<Rightarrow> key \<Rightarrow> ('f, 'x) store \<Rightarrow> error + 'f val \<times> ('f, 'x) store" where
  "facade_get call pm prop s =
     (case map_of pm prop of
        None \<Rightarrow> Inr (Undefined, s)
      | Some e \<Rightarrow>
          (case descGet (desc e) of
             Some g \<Rightarrow> invoke call g (index e) [] s
           | None \<Rightarrow>
               (if descValue (desc e) \<noteq> Undefined then
                  (if proto e \<noteq> None \<and> isFunction (descValue (desc e))
                   then Inr (bind (descValue (desc e)) (index e), s)
                   else js_get call (index e) prop s)
                else Inr (Undefined, s))))"

text \<open>
  Lines 168 to 172, where the \<^verbatim>\<open>set\<close> trap ends up whenever it has not returned
  from inside \<^verbatim>\<open>if ( entry )\<close>.
\<close>

definition assignToLast ::
  "('f, 'x) calls \<Rightarrow> key \<Rightarrow> 'f val \<Rightarrow> ('f, 'x) store \<Rightarrow> error + bool \<times> ('f, 'x) store" where
  "assignToLast call prop v s =
     (if length (instances s) > 0 then
        (case js_put call (length (instances s) - 1) prop v s of
           Inl e \<Rightarrow> Inl e
         | Inr s' \<Rightarrow> Inr (True, s'))
      else Inr (False, s))"

text \<open>The \<^verbatim>\<open>set\<close> trap, lines 155 to 173; the Boolean is what the trap returns.\<close>

definition facade_set ::
  "('f, 'x) calls \<Rightarrow> 'f plan \<Rightarrow> key \<Rightarrow> 'f val \<Rightarrow> ('f, 'x) store \<Rightarrow> error + bool \<times> ('f, 'x) store" where
  "facade_set call pm prop v s =
     (case map_of pm prop of
        None \<Rightarrow> assignToLast call prop v s
      | Some e \<Rightarrow>
          (case descSet (desc e) of
             Some st \<Rightarrow>
               (case invoke call st (index e) [v] s of
                  Inl err \<Rightarrow> Inl err
                | Inr (r, s') \<Rightarrow> Inr (True, s'))
           | None \<Rightarrow>
               (if descWritable (desc e) then
                  (case js_put call (index e) prop v s of
                     Inl err \<Rightarrow> Inl err
                   | Inr s' \<Rightarrow> Inr (True, s'))
                else assignToLast call prop v s)))"



definition facade_getOwnPropertyDescriptor :: "'f plan \<Rightarrow> key \<Rightarrow> 'f desc option" where
  "facade_getOwnPropertyDescriptor pm prop = map_option desc (map_of pm prop)"

section \<open>Creating composed instances\<close>

text \<open>
  The world a \<^verbatim>\<open>create\<close> call runs in: the module's
  \<^verbatim>\<open>listComposedPropertyMapCache\<close>, a \<^verbatim>\<open>WeakMap\<close> keyed by the identity of a design
  list (a number here), and the state outside the library that setup functions read and
  write.
\<close>

record ('f, 'x) world =
  listComposedPropertyMapCache :: "nat \<rightharpoonup> 'f plan"
  outer :: 'x

text \<open>
  \<^verbatim>\<open>items.map( ( item ) => item.create( deps ) )\<close>: the designs are instantiated in
  order against the same \<open>deps\<close>, the first exception ends the loop.
\<close>

fun instantiate ::
  "('v, 'i, 'w) componentDesign list \<Rightarrow> 'v deps \<Rightarrow> 'w \<Rightarrow> error + 'i list \<times> 'w" where
  "instantiate [] ds w = Inr ([], w)"
| "instantiate (item # items) ds w =
     (case create item ds w of
        Inl e \<Rightarrow> Inl e
      | Inr (inst, w') \<Rightarrow>
          (case instantiate items ds w' of
             Inl e \<Rightarrow> Inl e
           | Inr (insts, w'') \<Rightarrow> Inr (inst # insts, w'')))"

text \<open>
  What \<^verbatim>\<open>createListComposedInstance\<close> returns: the proxy, that is the plan and the
  instances its traps close over. The state its traps work on starts as \<open>storeOf\<close>.
\<close>

record 'f facade =
  propertyMap :: "'f plan"
  created :: "'f obj list"

definition storeOf :: "'f facade \<Rightarrow> 'x \<Rightarrow> ('f, 'x) store" where
  "storeOf F x = \<lparr>instances = created F, ext = x\<rparr>"

text \<open>
  \<^verbatim>\<open>createListComposedInstance( items, deps )\<close>, lines 105 to 185; \<open>ident\<close> is the
  identity of the array \<open>items\<close>. The cache is read before the instances are created and
  written after the plan is built.
\<close>

definition createListComposedInstance ::
  "nat \<Rightarrow> ('v, 'f obj, ('f, 'x) world) componentDesign list \<Rightarrow> 'v deps \<Rightarrow> ('f, 'x) world
     \<Rightarrow> error + 'f facade \<times> ('f, 'x) world" where
  "createListComposedInstance ident items ds w =
     (let cached = listComposedPropertyMapCache w ident in
      case instantiate items ds w of
        Inl e \<Rightarrow> Inl e
      | Inr (insts, w') \<Rightarrow>
          (case cached of
             Some pm \<Rightarrow> Inr (\<lparr>propertyMap = pm, created = insts\<rparr>, w')
           | None \<Rightarrow>
               (let pm = buildPropertyMap insts in
                Inr (\<lparr>propertyMap = pm, created = insts\<rparr>,
                     w'\<lparr>listComposedPropertyMapCache :=
                          (listComposedPropertyMapCache w')(ident \<mapsto> pm)\<rparr>))))"

text \<open>
  \<^verbatim>\<open>createMapComposedInstance( items, deps )\<close>, lines 195 to 204. The map \<open>items\<close> is
  the list of its own enumerable properties in the order of \<^verbatim>\<open>Object.keys\<close>;
  \<^verbatim>\<open>items[ key ].create\<close> on a key without a design throws.
\<close>

text \<open>
  The object \<open>result\<close>, which starts as \<^verbatim>\<open>{}\<close>: its own properties, and the value
  last handed to the setter of \<^verbatim>\<open>__proto__\<close>, if any. The statement
  \<^verbatim>\<open>result[ key ] = inst\<close> writes an own property, except for the key
  \<^verbatim>\<open>__proto__\<close>: \<open>result\<close> never has that property, so the assignment reaches the
  setter of \<^verbatim>\<open>Object.prototype\<close>, which makes \<open>inst\<close> the prototype of \<open>result\<close> if
  it is an object and does nothing otherwise; no own property is created.
\<close>

record 'i plainResult =
  ownEntries :: "(key \<times> 'i) list"
  protoSetterArg :: "'i option"

definition assignResult :: "key \<Rightarrow> 'i \<Rightarrow> 'i plainResult \<Rightarrow> 'i plainResult" where
  "assignResult k inst result =
     (if k = ''__proto__'' then result\<lparr>protoSetterArg := Some inst\<rparr>
      else result\<lparr>ownEntries := AList.update k inst (ownEntries result)\<rparr>)"

fun mapLoop ::
  "key list \<Rightarrow> (key \<times> ('v, 'i, 'w) componentDesign) list \<Rightarrow> 'v deps \<Rightarrow> 'i plainResult \<Rightarrow> 'w
     \<Rightarrow> error + 'i plainResult \<times> 'w" where
  "mapLoop [] items ds result w = Inr (result, w)"
| "mapLoop (k # ks) items ds result w =
     (case map_of items k of
        None \<Rightarrow> Inl TypeError
      | Some item \<Rightarrow>
          (case create item ds w of
             Inl e \<Rightarrow> Inl e
           | Inr (inst, w') \<Rightarrow> mapLoop ks items ds (assignResult k inst result) w'))"

definition createMapComposedInstance ::
  "(key \<times> ('v, 'i, 'w) componentDesign) list \<Rightarrow> 'v deps \<Rightarrow> 'w \<Rightarrow> error + 'i plainResult \<times> 'w" where
  "createMapComposedInstance items ds w =
     mapLoop (map fst items) items ds \<lparr>ownEntries = [], protoSetterArg = None\<rparr> w"

subsection \<open>The \<^verbatim>\<open>compose\<close> combinator\<close>

text \<open>
  The argument of \<^verbatim>\<open>compose\<close> as its run-time tests see it: an array
  (\<^verbatim>\<open>Array.isArray\<close>) with its identity, a plain object (\<^verbatim>\<open>isPlainObject\<close>), or
  anything else.
\<close>

datatype notDesigns = NullValue | PrimitiveValue | FunctionValue | ClassInstance

datatype ('v, 'f, 'i, 'x) designs =
    DesignList nat "('v, 'f obj, ('f, 'x) world) componentDesign list"
  | DesignMap "(key \<times> ('v, 'i, ('f, 'x) world) componentDesign) list"
  | NotDesigns notDesigns

datatype ('f, 'i) composed = Merged "'f facade" | Mapped "'i plainResult"

text \<open>
  \<^verbatim>\<open>compose( designs )\<close>, lines 62 to 88: the function builds \<^verbatim>\<open>setup\<close> and
  returns the design around it; the three branches, the \<^verbatim>\<open>throw\<close> among them, are the
  body of \<^verbatim>\<open>setup\<close>.
\<close>

definition compose ::
  "('v, 'f, 'i, 'x) designs \<Rightarrow> error + ('v, ('f, 'i) composed, ('f, 'x) world) componentDesign" where
  "compose designs =
     Inr (ComponentDesign (\<lambda>ds w.
       case designs of
         DesignList ident items \<Rightarrow>
           (case createListComposedInstance ident items ds w of
              Inl e \<Rightarrow> Inl e
            | Inr (F, w') \<Rightarrow> Inr (Merged F, w'))
       | DesignMap items \<Rightarrow>
           (case createMapComposedInstance items ds w of
              Inl e \<Rightarrow> Inl e
            | Inr (r, w') \<Rightarrow> Inr (Mapped r, w'))
       | NotDesigns x \<Rightarrow> Inl (Error ''Invalid designs argument to compose()'')))"


section \<open>Expressions of the callers and the wording of the specification\<close>

text \<open>
  The expression \<^verbatim>\<open>design( ... ).create( deps )\<close> or \<^verbatim>\<open>compose( ... ).create( deps )\<close>:
  an exception thrown while the design is built is the outcome of the whole expression.
\<close>

definition thenCreate ::
  "error + ('v, 'i, 'w) componentDesign \<Rightarrow> 'v deps \<Rightarrow> 'w \<Rightarrow> error + 'i \<times> 'w" where
  "thenCreate r ds w = (case r of Inl e \<Rightarrow> Inl e | Inr D \<Rightarrow> create D ds w)"

text \<open>
  Following the wording of the specification, not the code: the parent is created first
  against \<open>deps\<close>, its instance is discarded, and the result is the child created against
  the same \<open>deps\<close> in the state the parent has left.
\<close>

definition sequencedCreate ::
  "('v, 'p, 'w) componentDesign \<Rightarrow> ('v, 'i, 'w) componentDesign \<Rightarrow> 'v deps \<Rightarrow> 'w
     \<Rightarrow> error + 'i \<times> 'w" where
  "sequencedCreate P C ds w =
     (case create P ds w of Inl e \<Rightarrow> Inl e | Inr (p, w') \<Rightarrow> create C ds w')"

text \<open>
  Following the wording of the specification, not the code: an instance defines a key if
  it has it as an own property or through its prototype chain, and the owner of a key is
  the last instance of the list that defines it.
\<close>

definition definesKey :: "'f obj \<Rightarrow> key \<Rightarrow> bool" where
  "definesKey inst k = (lookupProp inst k \<noteq> None)"

definition lastDefiner :: "'f obj list \<Rightarrow> key \<Rightarrow> nat option" where
  "lastDefiner insts k =
     (case filter (\<lambda>i. definesKey (insts ! i) k) (rev [0..<length insts]) of
        [] \<Rightarrow> None
      | i # js \<Rightarrow> Some i)"

section \<open>Concrete designs and instances\<close>

text \<open>An object literal, and an instance of a class with the given prototype.\<close>

definition plainObject :: "'f props \<Rightarrow> 'f obj" where
  "plainObject ps = \<lparr>ownProps = ps, protoChain = [], extensible = True\<rparr>"

definition classInstance :: "'f props \<Rightarrow> 'f props \<Rightarrow> 'f obj" where
  "classInstance ps cls = \<lparr>ownProps = ps, protoChain = [cls], extensible = True\<rparr>"

text \<open>
  A prototype setter for worlds in which every object handed to it is an empty object:
  the instance at position \<open>i\<close> loses its chain, unless it is not extensible.
\<close>

definition toEmptyPrototype :: "nat \<Rightarrow> 'f val \<Rightarrow> ('f, 'x) store \<Rightarrow> error + ('f, 'x) store" where
  "toEmptyPrototype i v s =
     (if i < length (instances s) \<and> extensible (instances s ! i)
      then Inr (s\<lparr>instances := (instances s)[i := (instances s ! i)\<lparr>protoChain := []\<rparr>]\<rparr>)
      else Inl TypeError)"

text \<open>Functions that do nothing and return \<^verbatim>\<open>undefined\<close>, and functions that return 1.\<close>

definition noCalls :: "(nat, unit) calls" where
  "noCalls = \<lparr>invoke = (\<lambda>f i args s. Inr (Undefined, s)),
              protoGetter = (\<lambda>i s. ObjectRef 0),
              protoSetter = toEmptyPrototype\<rparr>"

definition returnOne :: "(nat, unit) calls" where
  "returnOne = \<lparr>invoke = (\<lambda>f i args s. Inr (Num 1, s)),
                protoGetter = (\<lambda>i s. ObjectRef 0),
                protoSetter = toEmptyPrototype\<rparr>"

text \<open>
  A world that is a counter: \<^verbatim>\<open>design( () => { n++; return 0; } )\<close> and
  \<^verbatim>\<open>design( () => n )\<close>.
\<close>

definition countingParent :: "(unit, nat, nat) componentDesign" where
  "countingParent = ComponentDesign (\<lambda>ds w. Inr (0, Suc w))"

definition probeChild :: "(unit, nat, nat) componentDesign" where
  "probeChild = ComponentDesign (\<lambda>ds w. Inr (w, w))"



text \<open>\<^verbatim>\<open>design( ( deps ) => [ deps.host, deps.port ] )\<close>.\<close>

definition hostPort :: "(int, int option list, unit) componentDesign" where
  "hostPort = ComponentDesign (\<lambda>ds w.
     Inr (case ds of None \<Rightarrow> [] | Some m \<Rightarrow> [m ''host'', m ''port''], w))"

text \<open>
  \<^verbatim>\<open>[ { greet: 'a' }, new Greeter() ]\<close> with \<^verbatim>\<open>greet\<close> a method of the class, and
  \<^verbatim>\<open>[ new English(), new French() ]\<close> with a method \<^verbatim>\<open>greet\<close> in each class.
  The prototype of a class has the own keys \<^verbatim>\<open>constructor\<close> and its methods.
\<close>

definition greeters :: "nat obj list" where
  "greeters = [plainObject [(''greet'', Data (Str ''a'') True)],
               classInstance [] [(''constructor'', Data (Fun 10) True),
                                 (''greet'', Data (Fun 0) True)]]"

definition twoClasses :: "nat obj list" where
  "twoClasses = [classInstance [] [(''constructor'', Data (Fun 10) True),
                                   (''greet'', Data (Fun 0) True)],
                 classInstance [] [(''constructor'', Data (Fun 11) True),
                                   (''greet'', Data (Fun 1) True)]]"

text \<open>\<^verbatim>\<open>[ { x: undefined } ]\<close>.\<close>

definition lateValue :: "nat obj list" where
  "lateValue = [plainObject [(''x'', Data Undefined True)]]"

text \<open>\<^verbatim>\<open>[ { get x() { ... } }, { y: 2 } ]\<close>: \<^verbatim>\<open>x\<close> has a getter and no setter.\<close>

definition readOnlyThenPlain :: "nat obj list" where
  "readOnlyThenPlain = [plainObject [(''x'', Accessor (Some 0) None)],
                        plainObject [(''y'', Data (Num 2) True)]]"


text \<open>
  \<^verbatim>\<open>design( () => { let c = 0; return { get count() { return c; } }; } )\<close>: the outer
  state is the list of the variables \<^verbatim>\<open>c\<close> allocated so far, function \<open>n\<close> is the
  getter that closes over variable \<open>n\<close>, and each setup allocates a new variable.
\<close>

definition readCell :: "(nat, int list) calls" where
  "readCell =
     \<lparr>invoke = (\<lambda>f i args s. Inr (if f < length (ext s) then Num (ext s ! f) else Undefined, s)),
      protoGetter = (\<lambda>i s. ObjectRef 0),
      protoSetter = toEmptyPrototype\<rparr>"

definition counterSetup :: "(unit deps, nat obj, (nat, int list) world) setupfn" where
  "counterSetup ds w =
     Inr (plainObject [(''count'', Accessor (Some (length (outer w))) None)],
          w\<lparr>outer := outer w @ [0]\<rparr>)"

definition counterList :: "(unit, nat, unit, int list) designs" where
  "counterList = DesignList 0 [ComponentDesign counterSetup]"

definition emptyWorld :: "(nat, int list) world" where
  "emptyWorld = \<lparr>listComposedPropertyMapCache = Map.empty, outer = []\<rparr>"

section \<open>One key followed through the construction of the plan\<close>

text \<open>
  The entry the walk up a prototype chain finds for a key: the descriptor of the nearest
  prototype that has the key.
\<close>

fun firstProtoEntry :: "nat \<Rightarrow> 'f props list \<Rightarrow> key \<Rightarrow> 'f entry option" where
  "firstProtoEntry i [] k = None"
| "firstProtoEntry i (p # ps) k =
     (case map_of p k of
        Some d \<Rightarrow> Some \<lparr>index = i, desc = d, proto = Some p\<rparr>
      | None \<Rightarrow> firstProtoEntry i ps k)"

text \<open>
  The entry of a key after the loop body has run for the instance at index \<open>i\<close>, from
  the entry \<open>acc\<close> before it: an own property replaces whatever was there, an inherited
  one is taken only if nothing was there.
\<close>

definition entryAfter :: "nat \<Rightarrow> 'f obj \<Rightarrow> 'f entry option \<Rightarrow> key \<Rightarrow> 'f entry option" where
  "entryAfter i inst acc k =
     (case map_of (ownProps inst) k of
        Some d \<Rightarrow> Some \<lparr>index = i, desc = d, proto = None\<rparr>
      | None \<Rightarrow>
          (case acc of
             Some e \<Rightarrow> Some e
           | None \<Rightarrow> firstProtoEntry i (protoChain inst) k))"

fun keyOwner :: "nat \<Rightarrow> 'f obj list \<Rightarrow> 'f entry option \<Rightarrow> key \<Rightarrow> 'f entry option" where
  "keyOwner i [] acc k = acc"
| "keyOwner i (inst # rest) acc k = keyOwner (Suc i) rest (entryAfter i inst acc k) k"

section \<open>Properties of the \<^verbatim>\<open>design\<close> combinator\<close>

lemma create_setupFn: "create D ds w = setupFn D ds w"
  by (simp add: create_def makeCreate_def)

text \<open>
  A first argument that \<^verbatim>\<open>isComponentDesign\<close> rejects is taken for the setup function,
  whatever the second argument is.
\<close>

lemma design_of_setup:
  "\<not> isComponentDesign a \<Longrightarrow> design a child = Inr (ComponentDesign (asSetup a))"
  by (cases a) simp_all

text \<open>
  C9. For every parent design and every child that is neither a function nor an object
  with a function-valued \<^verbatim>\<open>create\<close>, the call \<^verbatim>\<open>design( parent, child )\<close> itself
  throws \<^verbatim>\<open>Error( 'Invalid child argument to design()' )\<close>: no design is returned
  whose \<^verbatim>\<open>create\<close> could fail later.
\<close>

theorem design_rejects_invalid_child:
  "design (DesignObject P) (Other x) = Inl (Error ''Invalid child argument to design()'')"
  by simp

text \<open>
  C2, as stated, at the counting parent and the probing child: the specification's
  sequence leaves the counter at 1 and returns 1, the code leaves it at 0 and returns 0.
\<close>

theorem design_child_design_skips_parent:
  "thenCreate (design (DesignObject countingParent) (DesignObject probeChild)) None 0 = Inr (0, 0)
   \<and> sequencedCreate countingParent probeChild None 0 = Inr (1, 1)
   \<and> thenCreate (design (DesignObject countingParent) (DesignObject probeChild)) None 0
       \<noteq> sequencedCreate countingParent probeChild None 0"
  by (simp add: thenCreate_def sequencedCreate_def countingParent_def probeChild_def
      create_setupFn)

text \<open>
  C2, amended. For every parent design \<open>P\<close>, child design \<open>C\<close>, dependency value and
  state, \<^verbatim>\<open>design( P, C ).create( d )\<close> is \<^verbatim>\<open>C.create( d )\<close> run in the state of
  the call: same outcome, same state afterwards, whatever \<open>P\<close> is. The parent is not
  created.
\<close>

theorem design_child_design_is_child:
  "thenCreate (design (DesignObject P) (DesignObject C)) ds w = create C ds w"
  by (simp add: thenCreate_def create_setupFn)

section \<open>Properties of \<^verbatim>\<open>with\<close>\<close>

text \<open>
  C7. For every design \<open>D\<close>, key \<open>k\<close>, value \<open>v\<close> and dependency object \<open>rest\<close>
  without \<open>k\<close>, \<^verbatim>\<open>D.with( { k: v } ).create( rest )\<close> is
  \<^verbatim>\<open>D.create( { ...rest, k: v } )\<close>. For any pre-filled \<open>values\<close> the setup receives
  \<open>values\<close> overwritten by \<open>rest\<close>, so every key of \<open>rest\<close> keeps the caller's value.
\<close>

theorem with_prefills_dependencies:
  "(k \<notin> dom rest \<longrightarrow>
      create (design_with D [k \<mapsto> v]) (Some rest) w = create D (Some (rest(k \<mapsto> v))) w)
   \<and> create (design_with D values) (Some rest) w = create D (Some (values ++ rest)) w
   \<and> (\<forall>k'\<in>dom rest. (values ++ rest) k' = rest k')"
proof -
  have "k \<notin> dom rest \<Longrightarrow> [k \<mapsto> v] ++ rest = rest(k \<mapsto> v)"
    by (rule ext) (auto simp: map_add_def split: option.splits)
  then show ?thesis
    by (auto simp: design_with_def makeWithTransform_def create_setupFn spread_def
        map_add_dom_app_simps)
qed

theorem with_prefills_dependencies_witness:
  "''port'' \<notin> dom [''host'' \<mapsto> (1::int)]
   \<and> create (design_with hostPort [''port'' \<mapsto> 5432]) (Some [''host'' \<mapsto> 1]) ()
       = Inr ([Some 1, Some 5432], ())
   \<and> create (design_with hostPort [''port'' \<mapsto> 5432]) (Some [''port'' \<mapsto> 80]) ()
       = Inr ([None, Some 80], ())"
proof -
  have h: "''port'' \<notin> dom [''host'' \<mapsto> (1::int)]" by simp
  have a: "create (design_with hostPort [''port'' \<mapsto> 5432]) (Some [''host'' \<mapsto> 1]) ()
      = create hostPort (Some ([''host'' \<mapsto> 1](''port'' \<mapsto> 5432))) ()"
    using with_prefills_dependencies [of "''port''" "[''host'' \<mapsto> 1]" hostPort 5432 "()"] h
    by blast
  have b: "create (design_with hostPort [''port'' \<mapsto> 5432]) (Some [''port'' \<mapsto> 80]) ()
      = create hostPort (Some ([''port'' \<mapsto> 5432] ++ [''port'' \<mapsto> 80])) ()"
    using with_prefills_dependencies [of "''port''" "[''port'' \<mapsto> 80]" hostPort 5432 "()"
        "[''port'' \<mapsto> 5432]"]
    by blast
  show ?thesis
    unfolding a b using h by (simp add: create_setupFn hostPort_def)
qed


section \<open>Properties of \<^verbatim>\<open>compose\<close>\<close>

text \<open>
  C3, as stated, at an argument that is a class instance: \<^verbatim>\<open>compose\<close> throws nothing
  and returns a design.
\<close>

theorem compose_accepts_invalid_argument:
  "\<not> isl (compose (NotDesigns ClassInstance :: (unit, unit, unit, unit) designs))"
  by (simp add: compose_def)

text \<open>
  C3, amended. For every argument that is neither an array nor a plain object,
  \<^verbatim>\<open>compose( arg )\<close> returns a design without throwing, and every \<^verbatim>\<open>create\<close> call
  on that design, for every dependency value and state, throws
  \<^verbatim>\<open>Error( 'Invalid designs argument to compose()' )\<close>: the failure is deferred to
  \<^verbatim>\<open>create\<close>.
\<close>

theorem compose_defers_invalid_argument:
  "\<not> isl (compose (NotDesigns x))
   \<and> thenCreate (compose (NotDesigns x)) ds w
       = Inl (Error ''Invalid designs argument to compose()'')"
  by (simp add: compose_def thenCreate_def create_setupFn)

subsection \<open>Map mode\<close>










subsection \<open>List mode: the plan\<close>

lemma map_of_addOwnKeys:
  "map_of (addOwnKeys i inst ks pm) k =
     (if k \<in> set ks then
        (case map_of (ownProps inst) k of
           Some d \<Rightarrow> Some \<lparr>index = i, desc = d, proto = None\<rparr>
         | None \<Rightarrow> map_of pm k)
      else map_of pm k)"
  by (induction ks arbitrary: pm) (auto simp: update_conv' split: option.splits)

lemma map_of_addProtoKeys:
  "map_of (addProtoKeys i p ks pm) k =
     (case map_of pm k of
        Some e \<Rightarrow> Some e
      | None \<Rightarrow>
          (if k \<in> set ks then
             (case map_of p k of
                Some d \<Rightarrow> Some \<lparr>index = i, desc = d, proto = Some p\<rparr>
              | None \<Rightarrow> None)
           else None))"
  by (induction ks arbitrary: pm) (auto simp: update_conv' split: option.splits)

lemma map_of_walkProtos:
  "map_of (walkProtos i ps pm) k =
     (case map_of pm k of Some e \<Rightarrow> Some e | None \<Rightarrow> firstProtoEntry i ps k)"
proof (induction ps arbitrary: pm)
  case Nil
  then show ?case by (simp split: option.splits)
next
  case (Cons p ps)
  have "k \<notin> fst ` set p \<Longrightarrow> map_of p k = None" by (simp add: map_of_eq_None_iff)
  then show ?case
    by (auto simp: Cons.IH map_of_addProtoKeys split: option.splits)
qed

lemma map_of_buildFrom:
  "map_of (buildFrom i insts pm) k = keyOwner i insts (map_of pm k) k"
proof (induction insts arbitrary: i pm)
  case Nil
  then show ?case by simp
next
  case (Cons inst rest)
  have "k \<notin> fst ` set (ownProps inst) \<Longrightarrow> map_of (ownProps inst) k = None"
    by (simp add: map_of_eq_None_iff)
  then have "map_of (walkProtos i (protoChain inst)
                 (addOwnKeys i inst (map fst (ownProps inst)) pm)) k
      = entryAfter i inst (map_of pm k) k"
    by (auto simp: map_of_walkProtos map_of_addOwnKeys entryAfter_def split: option.splits)
  then show ?case by (simp add: Cons.IH)
qed

lemma map_of_buildPropertyMap:
  "map_of (buildPropertyMap insts) k = keyOwner 0 insts None k"
  by (simp add: buildPropertyMap_def map_of_buildFrom)

lemma keyOwner_append:
  "keyOwner i (xs @ ys) acc k = keyOwner (i + length xs) ys (keyOwner i xs acc k) k"
  by (induction xs arbitrary: i acc) auto

lemma keyOwner_keeps:
  "\<forall>inst\<in>set insts. map_of (ownProps inst) k = None \<Longrightarrow>
   keyOwner i insts (Some e) k = Some e"
  by (induction insts arbitrary: i) (auto simp: entryAfter_def)

lemma firstProtoEntry_None:
  "firstProtoEntry i ps k = None \<longleftrightarrow> findProto ps k = None"
  by (induction ps) (auto split: option.splits)

lemma firstProtoEntry_Some:
  "findProto ps k = Some d \<Longrightarrow>
   \<exists>p. firstProtoEntry i ps k = Some \<lparr>index = i, desc = d, proto = Some p\<rparr>"
  by (induction ps) (auto split: option.splits)

lemma keyOwner_undefined:
  "\<forall>inst\<in>set insts. lookupProp inst k = None \<Longrightarrow> keyOwner i insts None k = None"
proof (induction insts arbitrary: i)
  case Nil
  then show ?case by simp
next
  case (Cons inst rest)
  then have "lookupProp inst k = None" by simp
  then have "entryAfter i inst None k = None"
    by (auto simp: lookupProp_def entryAfter_def firstProtoEntry_None split: option.splits)
  with Cons show ?case by simp
qed

lemma keyOwner_None:
  "keyOwner i insts acc k = None \<Longrightarrow>
   acc = None \<and> (\<forall>inst\<in>set insts. lookupProp inst k = None)"
proof (induction insts arbitrary: i acc)
  case Nil
  then show ?case by simp
next
  case (Cons inst rest)
  from Cons.prems have r: "keyOwner (Suc i) rest (entryAfter i inst acc k) k = None" by simp
  from Cons.IH [OF r] have a: "entryAfter i inst acc k = None"
    and b: "\<forall>inst\<in>set rest. lookupProp inst k = None" by auto
  from a have "acc = None \<and> lookupProp inst k = None"
    by (auto simp: entryAfter_def lookupProp_def firstProtoEntry_None split: option.splits)
  with b show ?case by simp
qed

text \<open>
  What the plan holds for a key. If some instance has the key as an own property, the
  owner is the last such instance, with its descriptor. If none has, the owner is the
  first instance that inherits the key, not the last, with the descriptor of the nearest
  prototype. The plan has exactly the keys that some instance defines.
\<close>

lemma plan_last_own_wins:
  assumes "map_of (ownProps inst) k = Some d"
    and "\<forall>later\<in>set post. map_of (ownProps later) k = None"
  shows "map_of (buildPropertyMap (pre @ inst # post)) k
      = Some \<lparr>index = length pre, desc = d, proto = None\<rparr>"
proof -
  have "keyOwner (length pre) (inst # post) (keyOwner 0 pre None k) k
      = Some \<lparr>index = length pre, desc = d, proto = None\<rparr>"
    using assms by (simp add: entryAfter_def keyOwner_keeps)
  then show ?thesis
    by (simp add: map_of_buildPropertyMap keyOwner_append)
qed

lemma plan_first_inheritor_wins:
  assumes "\<forall>x\<in>set (pre @ inst # post). map_of (ownProps x) k = None"
    and "\<forall>earlier\<in>set pre. findProto (protoChain earlier) k = None"
    and "findProto (protoChain inst) k = Some d"
  shows "\<exists>p. map_of (buildPropertyMap (pre @ inst # post)) k
      = Some \<lparr>index = length pre, desc = d, proto = Some p\<rparr>"
proof -
  have "\<forall>x\<in>set pre. lookupProp x k = None"
    using assms(1,2) by (simp add: lookupProp_def)
  then have pre: "keyOwner 0 pre None k = None" by (rule keyOwner_undefined)
  obtain p where p: "firstProtoEntry (length pre) (protoChain inst) k
      = Some \<lparr>index = length pre, desc = d, proto = Some p\<rparr>"
    using firstProtoEntry_Some [OF assms(3)] by blast
  have own: "map_of (ownProps inst) k = None" using assms(1) by simp
  have post: "\<forall>x\<in>set post. map_of (ownProps x) k = None" using assms(1) by simp
  have "keyOwner (length pre) (inst # post) None k
      = Some \<lparr>index = length pre, desc = d, proto = Some p\<rparr>"
    using own p keyOwner_keeps [OF post] by (simp add: entryAfter_def)
  then show ?thesis
    by (auto simp: map_of_buildPropertyMap keyOwner_append pre)
qed

lemma plan_has_every_defined_key:
  "map_of (buildPropertyMap insts) k = None \<longleftrightarrow> (\<forall>inst\<in>set insts. lookupProp inst k = None)"
  using keyOwner_None [of 0 insts None k] keyOwner_undefined [of insts k 0]
  by (auto simp: map_of_buildPropertyMap)

text \<open>
  C1, at two lists. In \<^verbatim>\<open>[ { greet: 'a' }, new Greeter() ]\<close> the last instance that
  defines \<^verbatim>\<open>greet\<close> is the second, through its prototype, and the plan gives the key
  to the first. In \<^verbatim>\<open>[ new English(), new French() ]\<close> both instances inherit
  \<^verbatim>\<open>greet\<close>, the last that defines it is the second, and the plan gives the key to
  the first, with the method of the first class.
\<close>

theorem plan_keeps_earlier_owner_over_inherited:
  "map_option index (map_of (buildPropertyMap greeters) ''greet'') = Some 0
   \<and> lastDefiner greeters ''greet'' = Some 1
   \<and> map_of (buildPropertyMap twoClasses) ''greet''
       = Some \<lparr>index = 0, desc = Data (Fun 0) True,
               proto = Some [(''constructor'', Data (Fun 10) True),
                             (''greet'', Data (Fun 0) True)]\<rparr>
   \<and> lastDefiner twoClasses ''greet'' = Some 1"
  by (auto simp add: buildPropertyMap_def greeters_def twoClasses_def plainObject_def
      classInstance_def lastDefiner_def definesKey_def lookupProp_def upt_rec)

subsection \<open>List mode: reading through the facade\<close>

text \<open>
  The four outcomes of the \<^verbatim>\<open>get\<close> trap for a key of the plan: the getter of the
  plan runs on the owner; a data value that was not \<^verbatim>\<open>undefined\<close> when the plan was
  built is read from the owner at the time of the read, unless it is an inherited
  function, which is returned bound to the owner; a data value that was
  \<^verbatim>\<open>undefined\<close> when the plan was built reads \<^verbatim>\<open>undefined\<close> whatever the owner
  holds.
\<close>

lemma facade_get_cases:
  assumes "map_of pm k = Some e"
  shows "descGet (desc e) = Some g \<Longrightarrow> facade_get call pm k s = invoke call g (index e) [] s"
    and "descGet (desc e) = None \<Longrightarrow> descValue (desc e) \<noteq> Undefined \<Longrightarrow>
         \<not> (proto e \<noteq> None \<and> isFunction (descValue (desc e))) \<Longrightarrow>
         facade_get call pm k s = js_get call (index e) k s"
    and "descGet (desc e) = None \<Longrightarrow> proto e \<noteq> None \<Longrightarrow> descValue (desc e) = Fun f \<Longrightarrow>
         facade_get call pm k s = Inr (Bound f (index e), s)"
    and "descGet (desc e) = None \<Longrightarrow> descValue (desc e) = Undefined \<Longrightarrow>
         facade_get call pm k s = Inr (Undefined, s)"
  using assms by (auto simp: facade_get_def)

text \<open>
  C4, at \<^verbatim>\<open>[ { x: undefined } ]\<close>. Assigning 5 to \<^verbatim>\<open>x\<close> through the facade
  succeeds and writes the owner's property; the owner then reads 5 under \<^verbatim>\<open>x\<close>; the
  facade still reads \<^verbatim>\<open>undefined\<close>.
\<close>

theorem facade_get_misses_value_after_undefined:
  "facade_set noCalls (buildPropertyMap lateValue) ''x'' (Num 5)
       \<lparr>instances = lateValue, ext = ()\<rparr>
     = Inr (True, \<lparr>instances = [plainObject [(''x'', Data (Num 5) True)]], ext = ()\<rparr>)
   \<and> js_get noCalls 0 ''x'' \<lparr>instances = [plainObject [(''x'', Data (Num 5) True)]], ext = ()\<rparr>
     = Inr (Num 5, \<lparr>instances = [plainObject [(''x'', Data (Num 5) True)]], ext = ()\<rparr>)
   \<and> facade_get noCalls (buildPropertyMap lateValue) ''x''
        \<lparr>instances = [plainObject [(''x'', Data (Num 5) True)]], ext = ()\<rparr>
     = Inr (Undefined, \<lparr>instances = [plainObject [(''x'', Data (Num 5) True)]], ext = ()\<rparr>)"
  by (simp add: buildPropertyMap_def lateValue_def plainObject_def facade_set_def facade_get_def
      js_put_def js_get_def lookupProp_def defineOwn_def)

subsection \<open>List mode: assigning through the facade\<close>

lemma js_put_new_property:
  assumes "i < length (instances s)" and "lookupProp (instances s ! i) k = None"
    and "extensible (instances s ! i)" and "k \<noteq> ''__proto__''"
  shows "js_put call i k v s =
    Inr (s\<lparr>instances := (instances s)[i := defineOwn k v (instances s ! i)]\<rparr>)"
  using assms by (simp add: js_put_def)


lemma js_put_read_only_own:
  assumes "i < length (instances s)" and "map_of (ownProps (instances s ! i)) k = Some d"
    and "descSet d = None" and "\<not> descWritable d"
  shows "js_put call i k v s = Inl TypeError"
proof (cases d)
  case (Data x b)
  with assms show ?thesis by (simp add: js_put_def lookupProp_def)
next
  case (Accessor g st)
  with assms show ?thesis by (simp add: js_put_def lookupProp_def)
qed

text \<open>
  A key of the plan whose descriptor has no setter and is not writable leaves
  \<^verbatim>\<open>if ( entry )\<close> without a \<^verbatim>\<open>return\<close> and is treated as a key the plan does not
  have.
\<close>

lemma facade_set_read_only_falls_through:
  assumes "map_of pm k = Some e" and "descSet (desc e) = None" and "\<not> descWritable (desc e)"
  shows "facade_set call pm k v s = assignToLast call k v s"
  using assms by (simp add: facade_set_def)

text \<open>
  C5, at \<^verbatim>\<open>[ { get x() { return 1; } }, { y: 2 } ]\<close>: the plan gives \<^verbatim>\<open>x\<close> to the
  first instance, where it has a getter and no setter. Assigning 5 to \<^verbatim>\<open>x\<close> through
  the facade is not a refused no-op: it reports success and adds \<^verbatim>\<open>x\<close> to the second
  instance. The facade then still reads 1 under \<^verbatim>\<open>x\<close>, through the getter of the
  first instance, and still describes \<^verbatim>\<open>x\<close> as a property with a getter and no setter.
\<close>

theorem facade_set_read_only_not_refused:
  "map_of (buildPropertyMap readOnlyThenPlain) ''x''
     = Some \<lparr>index = 0, desc = Accessor (Some 0) None, proto = None\<rparr>
   \<and> facade_set returnOne (buildPropertyMap readOnlyThenPlain) ''x'' (Num 5)
       \<lparr>instances = readOnlyThenPlain, ext = ()\<rparr>
     \<noteq> Inr (False, \<lparr>instances = readOnlyThenPlain, ext = ()\<rparr>)
   \<and> facade_set returnOne (buildPropertyMap readOnlyThenPlain) ''x'' (Num 5)
       \<lparr>instances = readOnlyThenPlain, ext = ()\<rparr>
     = Inr (True, \<lparr>instances = [plainObject [(''x'', Accessor (Some 0) None)],
                     plainObject [(''y'', Data (Num 2) True), (''x'', Data (Num 5) True)]],
                  ext = ()\<rparr>)
   \<and> facade_get returnOne (buildPropertyMap readOnlyThenPlain) ''x''
        \<lparr>instances = [plainObject [(''x'', Accessor (Some 0) None)],
                      plainObject [(''y'', Data (Num 2) True), (''x'', Data (Num 5) True)]],
         ext = ()\<rparr>
     = Inr (Num 1,
            \<lparr>instances = [plainObject [(''x'', Accessor (Some 0) None)],
                          plainObject [(''y'', Data (Num 2) True), (''x'', Data (Num 5) True)]],
             ext = ()\<rparr>)
   \<and> facade_getOwnPropertyDescriptor (buildPropertyMap readOnlyThenPlain) ''x''
     = Some (Accessor (Some 0) None)"
  by (simp add: buildPropertyMap_def readOnlyThenPlain_def plainObject_def facade_set_def
      facade_get_def facade_getOwnPropertyDescriptor_def assignToLast_def js_put_def
      lookupProp_def defineOwn_def returnOne_def)

text \<open>
  On a facade whose plan was built from its own instances, and before any of them has
  changed, the last instance has no property under a key that is not in the plan: the
  assignment of a key other than \<^verbatim>\<open>__proto__\<close> creates it there whenever that
  instance is extensible.
\<close>

lemma fresh_facade_unknown_key:
  assumes "map_of (buildPropertyMap (instances s)) k = None" and "instances s \<noteq> []"
    and "extensible (last (instances s))" and "k \<noteq> ''__proto__''"
  shows "facade_set call (buildPropertyMap (instances s)) k v s =
    Inr (True, s\<lparr>instances :=
           (instances s)[length (instances s) - 1 := defineOwn k v (last (instances s))]\<rparr>)"
proof -
  let ?n = "length (instances s) - 1"
  have n: "?n < length (instances s)" using assms(2) by simp
  have l: "instances s ! ?n = last (instances s)" using assms(2) by (simp add: last_conv_nth)
  have "lookupProp (last (instances s)) k = None"
    using assms(1,2) by (simp add: plan_has_every_defined_key)
  then show ?thesis
    using js_put_new_property [OF n, of k call v] assms l
    by (simp add: facade_set_def assignToLast_def)
qed




subsection \<open>List mode: creating twice from one list\<close>

text \<open>
  With no plan in the cache for the list, creation runs every setup, builds the plan from
  the new instances and stores it; with a plan in the cache, creation runs every setup
  again and returns the new instances with the cached plan, whatever instances that plan
  was built from.
\<close>

lemma createListComposedInstance_first:
  assumes "listComposedPropertyMapCache w ident = None"
    and "instantiate items ds w = Inr (insts, w')"
  shows "createListComposedInstance ident items ds w =
    Inr (\<lparr>propertyMap = buildPropertyMap insts, created = insts\<rparr>,
         w'\<lparr>listComposedPropertyMapCache :=
              (listComposedPropertyMapCache w')(ident \<mapsto> buildPropertyMap insts)\<rparr>)"
  using assms by (simp add: createListComposedInstance_def Let_def)

lemma createListComposedInstance_cached:
  assumes "listComposedPropertyMapCache w ident = Some pm"
    and "instantiate items ds w = Inr (insts, w')"
  shows "createListComposedInstance ident items ds w =
    Inr (\<lparr>propertyMap = pm, created = insts\<rparr>, w')"
  using assms by (simp add: createListComposedInstance_def)

text \<open>
  C6, at the list of the one counter design. Composing the list and creating twice runs
  the setup twice: two variables exist afterwards and the second instance has the getter
  that closes over the second. With the second variable set to 7, the second instance
  reads 7 under \<^verbatim>\<open>count\<close>, and the second facade reads 0: the plan it has taken from
  the cache holds the getter of the first run.
\<close>

theorem second_facade_reads_first_run:
  "(case thenCreate (compose counterList) None emptyWorld of
      Inr (Merged F1, w1) \<Rightarrow>
        (case thenCreate (compose counterList) None w1 of
           Inr (Merged F2, w2) \<Rightarrow>
             outer w2 = [0, 0]
             \<and> created F2 = [plainObject [(''count'', Accessor (Some 1) None)]]
             \<and> propertyMap F2 = propertyMap F1
             \<and> js_get readCell 0 ''count'' (storeOf F2 [0, 7]) = Inr (Num 7, storeOf F2 [0, 7])
             \<and> facade_get readCell (propertyMap F2) ''count'' (storeOf F2 [0, 7])
                 = Inr (Num 0, storeOf F2 [0, 7])
         | _ \<Rightarrow> False)
    | _ \<Rightarrow> False)"
  by (simp add: thenCreate_def compose_def counterList_def emptyWorld_def create_setupFn
      createListComposedInstance_def counterSetup_def buildPropertyMap_def plainObject_def
      storeOf_def js_get_def facade_get_def lookupProp_def readCell_def Let_def)

end
